theory Spec2Isabelle
  imports Main
begin

section \<open>Strings and the two regular expressions\<close>

text \<open>
  A JavaScript string is a sequence of UTF-16 code units. The model uses \<open>string\<close> and
  reads a \<open>char\<close> as the code unit of the same number, so it covers the strings over
  U+0000 .. U+00FF (ASCII and Latin-1); protobuf identifiers are ASCII.
\<close>

definition charCode :: "char \<Rightarrow> nat" where
  "charCode c = of_char c"

text \<open>The character classes \<open>[a-z]\<close>, \<open>\s\<close> and \<open>\w\<close> of the source's regular expressions
  (no \<open>i\<close> or \<open>u\<close> flag). Of the white space of \<open>\s\<close>, the code units below 256 are
  tab, line feed, vertical tab, form feed, carriage return, space and no-break space.\<close>

definition is_az :: "char \<Rightarrow> bool" where
  "is_az c = (97 \<le> charCode c \<and> charCode c \<le> 122)"

definition is_whitespace :: "char \<Rightarrow> bool" where
  "is_whitespace c = (charCode c \<in> {9, 10, 11, 12, 13, 32, 160})"

definition is_word :: "char \<Rightarrow> bool" where
  "is_word c =
     ((97 \<le> charCode c \<and> charCode c \<le> 122) \<or> (65 \<le> charCode c \<and> charCode c \<le> 90)
      \<or> (48 \<le> charCode c \<and> charCode c \<le> 57) \<or> c = CHR ''_'')"

text \<open>\<open>String.prototype.toLowerCase\<close>: below U+0100 the letters with a lower-case form are
  A .. Z and U+00C0 .. U+00DE without the multiplication sign U+00D7; each maps to the code
  unit 32 above it.\<close>

definition toLowerCase_char :: "char \<Rightarrow> char" where
  "toLowerCase_char c =
     (let n = charCode c
      in if (65 \<le> n \<and> n \<le> 90) \<or> (192 \<le> n \<and> n \<le> 222 \<and> n \<noteq> 215)
         then char_of (n + 32) else c)"

definition toLowerCase :: "string \<Rightarrow> string" where
  "toLowerCase s = map toLowerCase_char s"

text \<open>\<open>String.prototype.toUpperCase\<close>, as far as \<open>formatEnumName\<close> applies it: to the text
  matched by \<open>(?:^|\s|_)[a-z]\<close>, which holds white space, underscores and the letters
  a .. z only. White space and the underscore have no upper-case form.\<close>

definition toUpperCase_char :: "char \<Rightarrow> char" where
  "toUpperCase_char c = (if is_az c then char_of (charCode c - 32) else c)"

definition toUpperCase :: "string \<Rightarrow> string" where
  "toUpperCase s = map toUpperCase_char s"

text \<open>\<open>.replace(/(?:^|\s|_)[a-z]/g, (m) => m.toUpperCase())\<close>. The scan goes left to right;
  \<open>at_start\<close> says that the position is the beginning of the string, where \<open>^\<close> matches.
  The alternatives are tried in the order of the pattern. A match is replaced by its upper
  case and the scan goes on behind it; where nothing matches, the character is kept and
  the scan moves one position on.\<close>

fun replace_capitalize :: "bool \<Rightarrow> string \<Rightarrow> string" where
  "replace_capitalize at_start [] = []"
| "replace_capitalize at_start [c] =
     (if at_start \<and> is_az c then toUpperCase [c] else [c])"
| "replace_capitalize at_start (c # d # ds) =
     (if at_start \<and> is_az c then toUpperCase [c] @ replace_capitalize False (d # ds)
      else if is_whitespace c \<and> is_az d then toUpperCase [c, d] @ replace_capitalize False ds
      else if c = CHR ''_'' \<and> is_az d then toUpperCase [c, d] @ replace_capitalize False ds
      else c # replace_capitalize False (d # ds))"

text \<open>\<open>.replace(/_/g, ' ')\<close>\<close>

definition replace_underscores :: "string \<Rightarrow> string" where
  "replace_underscores s = map (\<lambda>c. if c = CHR ''_'' then CHR '' '' else c) s"

definition formatEnumName :: "string \<Rightarrow> string" where
  "formatEnumName name = replace_underscores (replace_capitalize True (toLowerCase name))"

text \<open>\<open>comments.match(/@Translate: (\w+)/)\<close>, reduced to what the source reads of the result:
  \<open>None\<close> when there is no match, else capture group 1. \<open>directive_here\<close> tries the
  pattern at the beginning of its argument (\<open>\w+\<close> is greedy and nothing follows it, so
  the group is the longest run of word characters); \<open>match_Translate\<close> tries every
  position from the left and stops at the first success, as a regular expression without
  the \<open>g\<close> flag does.\<close>

definition directive_here :: "string \<Rightarrow> string option" where
  "directive_here s =
     (if take 12 s = ''@Translate: ''
      then (let token = takeWhile is_word (drop 12 s)
            in if token = [] then None else Some token)
      else None)"

fun match_Translate :: "string \<Rightarrow> string option" where
  "match_Translate [] = None"
| "match_Translate (c # cs) =
     (case directive_here (c # cs) of
        Some token \<Rightarrow> Some token
      | None \<Rightarrow> match_Translate cs)"

text \<open>A template literal prints an absent value as \<open>undefined\<close>.\<close>

definition template_string :: "string option \<Rightarrow> string" where
  "template_string x = (case x of None \<Rightarrow> ''undefined'' | Some s \<Rightarrow> s)"


section \<open>Descriptors, the value catalog and the syntax tree\<close>

record EnumValueDescriptorProto =
  evd_name :: string
  evd_number :: int

record EnumDescriptorProto =
  ed_name :: "string option"
  ed_value :: "EnumValueDescriptorProto list"

text \<open>An element of \<open>rt.listEnumValues(enumObject)\<close>.\<close>

record EnumObjectValue =
  ev_name :: string
  ev_number :: int

text \<open>The TypeScript syntax nodes the generator creates with \<open>ts.create...\<close>.\<close>

datatype Modifier = ExportKeyword

datatype NodeFlags = NoFlags | Let | Const

datatype Expression =
    Identifier string
  | PropertyAccess Expression string
  | StringLiteral string
  | ObjectLiteral "(string \<times> Expression) list"
  | ArrayLiteral "Expression list" bool

text \<open>\<open>ts.createVariableDeclaration(name, type, initializer)\<close>; the generator passes no type.\<close>

datatype VariableDeclaration =
  VariableDeclaration Expression "string option" "Expression option"

record EnumMember =
  member_name :: string
  member_number :: int
  member_comment :: "string option"

datatype StatementKind =
    EnumDeclaration "Modifier list" string "EnumMember list"
  | VariableStatement "Modifier list" "VariableDeclaration list" NodeFlags

text \<open>A statement node with the comment block in front of it.\<close>

record Statement =
  kind :: StatementKind
  leadingBlock :: "string list"

text \<open>Statements are objects: the generator adds one to the file and then changes it
  through the reference it still holds. So the nodes live in a store, addressed by their
  position, and the output file \<open>source\<close> lists references. Adding a statement and
  commenting a node change different parts of that state, so the state alone does not tell
  which came first: \<open>commentCalls\<close> is the history of the calls of
  \<open>addCommentsForDescriptor\<close>, each with its node, its mode and the statements that the file
  held when the call was made.\<close>

type_synonym ref = nat

record TypescriptFile =
  nodes :: "Statement list"
  statements :: "ref list"
  commentCalls :: "(ref \<times> string \<times> ref list) list"

definition alloc :: "Statement \<Rightarrow> TypescriptFile \<Rightarrow> ref \<times> TypescriptFile" where
  "alloc node source = (length (nodes source), source\<lparr>nodes := nodes source @ [node]\<rparr>)"

definition node_at :: "TypescriptFile \<Rightarrow> ref \<Rightarrow> Statement option" where
  "node_at source r = (if r < length (nodes source) then Some (nodes source ! r) else None)"


section \<open>Collaborators\<close>

text \<open>
  What the generator gets from its collaborators, taken as parameters:
  \<^item> \<open>enumValues d\<close> is \<open>rt.listEnumValues(this.interpreter.getEnumInfo(d)[1])\<close>, the value
    catalog;
  \<^item> \<open>getCommentBlock v b\<close> is \<open>this.comments.getCommentBlock(v, b)\<close>, absent or a text;
  \<^item> \<open>importsType source d\<close> is \<open>this.imports.type(source, d)\<close>, the name to declare;
  \<^item> \<open>typeComment d\<close> is the documentation of the enumeration type itself;
  \<^item> \<open>builtLeadingBlock\<close> is the leading comment block that a declaration has when the
    builder hands it over: the specification speaks of the declaration's existing leading
    comment block and does not say what it holds.
\<close>

record EnumGenerator =
  enumValues :: "EnumDescriptorProto \<Rightarrow> EnumObjectValue list"
  getCommentBlock :: "EnumValueDescriptorProto \<Rightarrow> bool \<Rightarrow> string option"
  importsType :: "TypescriptFile \<Rightarrow> EnumDescriptorProto \<Rightarrow> string"
  typeComment :: "EnumDescriptorProto \<Rightarrow> string option"
  builtLeadingBlock :: "string list"

text \<open>Modelled from the spec: \<open>TypescriptEnumBuilder\<close> of the plugin framework, the code
  builder service "that accepts an ordered list of (name, number, comment) triples and
  produces a ready declaration". The builder holds the triples in the order of the calls
  of \<open>add\<close>; \<open>build\<close> makes the declaration of that name with those members, with the
  leading block \<open>builtLeadingBlock\<close>.\<close>

type_synonym TypescriptEnumBuilder = "EnumMember list"

definition builder_new :: TypescriptEnumBuilder where
  "builder_new = []"

definition builder_add ::
  "TypescriptEnumBuilder \<Rightarrow> string \<Rightarrow> int \<Rightarrow> string option \<Rightarrow> TypescriptEnumBuilder" where
  "builder_add builder name number comment =
     builder @ [\<lparr>member_name = name, member_number = number, member_comment = comment\<rparr>]"

definition builder_build ::
  "EnumGenerator \<Rightarrow> TypescriptEnumBuilder \<Rightarrow> string \<Rightarrow> Modifier list \<Rightarrow> Statement" where
  "builder_build this builder name modifiers =
     \<lparr>kind = EnumDeclaration modifiers name builder, leadingBlock = builtLeadingBlock this\<rparr>"

text \<open>Modelled from the spec: \<open>TypescriptFile.addStatement\<close> of the plugin framework, the
  file abstraction "that accumulates statements", to which a statement is appended; the
  statement becomes the last one.\<close>

definition addStatement :: "ref \<Rightarrow> TypescriptFile \<Rightarrow> TypescriptFile" where
  "addStatement statement source = source\<lparr>statements := statements source @ [statement]\<rparr>"

text \<open>Modelled from the spec: \<open>CommentGenerator.addCommentsForDescriptor\<close>, which lives in
  \<open>comment-generator.ts\<close>: "the type-level documentation comment is attached to the
  declaration afterward, appended to its existing leading comment block rather than
  replacing it". The mode is the string the caller passes: with \<open>'appendToLeadingBlock'\<close> the
  documentation goes behind what the leading block holds; any other mode does what the
  sentence names as the alternative and replaces the block. An absent documentation is no
  text. Every call is written to the history, with the statements of the file at that
  moment.\<close>

definition addCommentsForDescriptor ::
  "EnumGenerator \<Rightarrow> ref \<Rightarrow> EnumDescriptorProto \<Rightarrow> string \<Rightarrow> TypescriptFile \<Rightarrow> TypescriptFile" where
  "addCommentsForDescriptor this node descriptor mode source =
     (let documentation =
            (case typeComment this descriptor of None \<Rightarrow> [] | Some text \<Rightarrow> [text]);
          called =
            source\<lparr>commentCalls := commentCalls source @ [(node, mode, statements source)]\<rparr>
      in case node_at source node of
           None \<Rightarrow> called
         | Some n \<Rightarrow>
             called\<lparr>nodes := (nodes source)
               [node := n\<lparr>leadingBlock :=
                  (if mode = ''appendToLeadingBlock'' then leadingBlock n @ documentation
                   else documentation)\<rparr>]\<rparr>)"


section \<open>The generator\<close>

text \<open>\<open>descriptor.value.find(v => v.number === ev.number)\<close>\<close>

definition find_value ::
  "EnumDescriptorProto \<Rightarrow> EnumObjectValue \<Rightarrow> EnumValueDescriptorProto option" where
  "find_value descriptor ev =
     List.find (\<lambda>v. evd_number v = ev_number ev) (ed_value descriptor)"

text \<open>One pass of the loop of \<open>generateEnum\<close>.\<close>

definition generateEnum_step ::
  "EnumGenerator \<Rightarrow> EnumDescriptorProto \<Rightarrow> TypescriptEnumBuilder \<Rightarrow> EnumObjectValue
     \<Rightarrow> TypescriptEnumBuilder" where
  "generateEnum_step this descriptor builder ev =
     (let evDescriptor = find_value descriptor ev;
          comments =
            (case evDescriptor of
               Some v \<Rightarrow> getCommentBlock this v True
             | None \<Rightarrow>
                 Some ''@generated synthetic value - protobuf-ts requires all enums to have a 0 value'')
      in builder_add builder (ev_name ev) (ev_number ev) comments)"

definition generateEnum ::
  "EnumGenerator \<Rightarrow> TypescriptFile \<Rightarrow> EnumDescriptorProto \<Rightarrow> ref \<times> TypescriptFile" where
  "generateEnum this source descriptor =
     (let builder = foldl (generateEnum_step this descriptor) builder_new
                      (enumValues this descriptor);
          (statement, source1) =
            alloc (builder_build this builder (importsType this source descriptor)
                     [ExportKeyword])
              source;
          source2 = addStatement statement source1;
          source3 = addCommentsForDescriptor this statement descriptor ''appendToLeadingBlock''
                      source2
      in (statement, source3))"

text \<open>Lines 91 to 101: the label of one catalog entry. \<open>if (comments)\<close> is false for
  \<open>null\<close>, for \<open>undefined\<close> and for the empty string.\<close>

definition translatedName ::
  "EnumGenerator \<Rightarrow> EnumDescriptorProto \<Rightarrow> EnumObjectValue \<Rightarrow> string" where
  "translatedName this descriptor ev =
     (let evDescriptor = find_value descriptor ev;
          comments = (case evDescriptor of Some v \<Rightarrow> getCommentBlock this v True | None \<Rightarrow> None);
          translatedName = formatEnumName (ev_name ev)
      in (case comments of
            None \<Rightarrow> translatedName
          | Some text \<Rightarrow>
              if text = [] then translatedName
              else (case match_Translate text of
                      Some token \<Rightarrow> token
                    | None \<Rightarrow> translatedName)))"

text \<open>One pass of the loop of \<open>generateTranslationTable\<close>: the pair pushed on
  \<open>translations\<close>.\<close>

definition generateTranslationTable_step ::
  "EnumGenerator \<Rightarrow> EnumDescriptorProto \<Rightarrow> (Expression \<times> Expression) list \<Rightarrow> EnumObjectValue
     \<Rightarrow> (Expression \<times> Expression) list" where
  "generateTranslationTable_step this descriptor translations ev =
     translations @
       [(PropertyAccess
           (Identifier (case ed_name descriptor of Some n \<Rightarrow> n | None \<Rightarrow> ''SpectralBot''))
           (ev_name ev),
         StringLiteral (translatedName this descriptor ev))]"

definition generateTranslationTable ::
  "EnumGenerator \<Rightarrow> TypescriptFile \<Rightarrow> EnumDescriptorProto \<Rightarrow> TypescriptFile" where
  "generateTranslationTable this source descriptor =
     (let translations = foldl (generateTranslationTable_step this descriptor) []
                           (enumValues this descriptor);
          translationArray =
            ArrayLiteral (map (\<lambda>t. ObjectLiteral [(''id'', fst t), (''name'', snd t)]) translations)
              True;
          (translationTableVarStatement, source1) =
            alloc \<lparr>kind = VariableStatement [ExportKeyword]
                     [VariableDeclaration
                        (Identifier (template_string (ed_name descriptor) @ ''Translation''))
                        None (Some translationArray)]
                     Const,
                   leadingBlock = []\<rparr>
              source
      in addStatement translationTableVarStatement source1)"


section \<open>Reading the emitted output\<close>

text \<open>The comment the source passes to \<open>builder.add\<close> for a catalog entry, and the member
  that results.\<close>

definition emitted_comment ::
  "EnumGenerator \<Rightarrow> EnumDescriptorProto \<Rightarrow> EnumObjectValue \<Rightarrow> string option" where
  "emitted_comment this descriptor ev =
     (case find_value descriptor ev of
        Some v \<Rightarrow> getCommentBlock this v True
      | None \<Rightarrow>
          Some ''@generated synthetic value - protobuf-ts requires all enums to have a 0 value'')"

definition emitted_member ::
  "EnumGenerator \<Rightarrow> EnumDescriptorProto \<Rightarrow> EnumObjectValue \<Rightarrow> EnumMember" where
  "emitted_member this descriptor ev =
     \<lparr>member_name = ev_name ev, member_number = ev_number ev,
      member_comment = emitted_comment this descriptor ev\<rparr>"

text \<open>The comment \<open>generateTranslationTable\<close> searches for a directive (lines 91 and 92).\<close>

definition matched_comment ::
  "EnumGenerator \<Rightarrow> EnumDescriptorProto \<Rightarrow> EnumObjectValue \<Rightarrow> string option" where
  "matched_comment this descriptor ev =
     (case find_value descriptor ev of Some v \<Rightarrow> getCommentBlock this v True | None \<Rightarrow> None)"

text \<open>The members of the declaration that \<open>generateEnum\<close> returned, read from the file.\<close>

definition declaration_members :: "ref \<times> TypescriptFile \<Rightarrow> EnumMember list" where
  "declaration_members result =
     (case node_at (snd result) (fst result) of
        None \<Rightarrow> []
      | Some n \<Rightarrow> (case kind n of EnumDeclaration modifiers name members \<Rightarrow> members | _ \<Rightarrow> []))"

text \<open>The last statement of a file, and the parts of a translation table found there.\<close>

definition last_statement :: "TypescriptFile \<Rightarrow> Statement option" where
  "last_statement source =
     (if statements source = [] then None else node_at source (last (statements source)))"

definition table_declaration :: "TypescriptFile \<Rightarrow> VariableDeclaration option" where
  "table_declaration source =
     (case last_statement source of
        None \<Rightarrow> None
      | Some n \<Rightarrow>
          (case kind n of
             VariableStatement modifiers [declaration] flags \<Rightarrow> Some declaration
           | _ \<Rightarrow> None))"

definition table_variable :: "TypescriptFile \<Rightarrow> Expression option" where
  "table_variable source =
     (case table_declaration source of
        Some (VariableDeclaration name type initializer) \<Rightarrow> Some name
      | None \<Rightarrow> None)"

definition table_elements :: "TypescriptFile \<Rightarrow> Expression list" where
  "table_elements source =
     (case table_declaration source of
        Some (VariableDeclaration name type (Some (ArrayLiteral elements multiLine))) \<Rightarrow> elements
      | _ \<Rightarrow> [])"

definition element_id :: "Expression \<Rightarrow> Expression option" where
  "element_id element =
     (case element of ObjectLiteral properties \<Rightarrow> map_of properties ''id'' | _ \<Rightarrow> None)"

definition element_member :: "Expression \<Rightarrow> string option" where
  "element_member element =
     (case element_id element of Some (PropertyAccess object member) \<Rightarrow> Some member | _ \<Rightarrow> None)"

definition element_label :: "Expression \<Rightarrow> string option" where
  "element_label element =
     (case element of
        ObjectLiteral properties \<Rightarrow>
          (case map_of properties ''name'' of Some (StringLiteral label) \<Rightarrow> Some label | _ \<Rightarrow> None)
      | _ \<Rightarrow> None)"


section \<open>Directives, as a reader of the comment sees them\<close>

text \<open>A directive stands at position \<open>k\<close> of a comment when the marker \<open>@Translate: \<close> begins
  there, character for character, and a word character follows it. The first directive of a
  comment has the token \<open>tok\<close> when the comment is \<open>pre\<close>, the marker, \<open>tok\<close> and \<open>post\<close>, where
  \<open>tok\<close> is a run of word characters that \<open>post\<close> does not continue and no directive stands at
  a position inside \<open>pre\<close>.\<close>

definition directive_occurs :: "string \<Rightarrow> nat \<Rightarrow> bool" where
  "directive_occurs c k =
     (\<exists>p q. c = p @ ''@Translate: '' @ q \<and> length p = k \<and> q \<noteq> [] \<and> is_word (hd q))"

definition first_directive :: "string \<Rightarrow> string \<Rightarrow> bool" where
  "first_directive c tok =
     (\<exists>pre post. c = pre @ ''@Translate: '' @ tok @ post
        \<and> tok \<noteq> [] \<and> (\<forall>ch \<in> set tok. is_word ch)
        \<and> (post = [] \<or> \<not> is_word (hd post))
        \<and> (\<forall>k<length pre. \<not> directive_occurs c k))"

definition no_directive :: "string \<Rightarrow> bool" where
  "no_directive c = (\<forall>k. \<not> directive_occurs c k)"


section \<open>The humanization as the specification words it\<close>

text \<open>"Lower-case the entire name; then, for every run beginning at the string start or
  immediately after a space or underscore, upper-case its first letter; then replace every
  remaining underscore with a space." Position by position: the character at \<open>i\<close> is made
  upper case when it is a letter and \<open>i\<close> is the start of the string or the character
  before it is a boundary. \<open>humanize_spec\<close> takes the boundaries of the sentence, the space
  and the underscore; \<open>humanize\<close> takes every white space and the underscore.\<close>

definition capitalize_after :: "(char \<Rightarrow> bool) \<Rightarrow> string \<Rightarrow> string" where
  "capitalize_after boundary s =
     map (\<lambda>i. if is_az (s ! i) \<and> (i = 0 \<or> boundary (s ! (i - 1)))
              then toUpperCase_char (s ! i) else s ! i)
       [0..<length s]"

definition humanize_spec :: "string \<Rightarrow> string" where
  "humanize_spec name =
     map (\<lambda>c. if c = CHR ''_'' then CHR '' '' else c)
       (capitalize_after (\<lambda>c. c = CHR '' '' \<or> c = CHR ''_'') (toLowerCase name))"

definition humanize :: "string \<Rightarrow> string" where
  "humanize name =
     map (\<lambda>c. if c = CHR ''_'' then CHR '' '' else c)
       (capitalize_after (\<lambda>c. is_whitespace c \<or> c = CHR ''_'') (toLowerCase name))"

text \<open>The scan of \<open>replace_capitalize\<close> told with the flag "the character before is a
  boundary, or there is none".\<close>

fun capitalize_from :: "bool \<Rightarrow> string \<Rightarrow> string" where
  "capitalize_from b [] = []"
| "capitalize_from b (c # cs) =
     (if b \<and> is_az c then toUpperCase_char c else c)
       # capitalize_from (is_whitespace c \<or> c = CHR ''_'') cs"


section \<open>An example enumeration\<close>

text \<open>The scenario of the specification: an enumeration \<open>Status\<close> without a zero member, so
  that the catalog begins with the synthetic one; \<open>STARTED\<close> is an alias of \<open>ACTIVE\<close>.\<close>

definition status_descriptor :: EnumDescriptorProto where
  "status_descriptor =
     \<lparr>ed_name = Some ''Status'',
      ed_value =
        [\<lparr>evd_name = ''ACTIVE'', evd_number = 1\<rparr>,
         \<lparr>evd_name = ''STARTED'', evd_number = 1\<rparr>,
         \<lparr>evd_name = ''READY_TO_START'', evd_number = 2\<rparr>,
         \<lparr>evd_name = ''DONE'', evd_number = 3\<rparr>,
         \<lparr>evd_name = ''ON_HOLD'', evd_number = 4\<rparr>]\<rparr>"

definition status_catalog :: "EnumObjectValue list" where
  "status_catalog =
     [\<lparr>ev_name = ''UNSPECIFIED'', ev_number = 0\<rparr>,
      \<lparr>ev_name = ''ACTIVE'', ev_number = 1\<rparr>,
      \<lparr>ev_name = ''READY_TO_START'', ev_number = 2\<rparr>,
      \<lparr>ev_name = ''DONE'', ev_number = 3\<rparr>,
      \<lparr>ev_name = ''ON_HOLD'', ev_number = 4\<rparr>]"

definition status_comments :: "EnumValueDescriptorProto \<Rightarrow> bool \<Rightarrow> string option" where
  "status_comments v leading =
     (if evd_name v = ''ACTIVE'' then Some ''The task runs.''
      else if evd_name v = ''STARTED'' then Some ''@Translate: Running''
      else if evd_name v = ''READY_TO_START''
        then Some ''@translate: no, @Translate: GoTime! @Translate: Foo''
      else if evd_name v = ''DONE'' then Some ''@Translate: (none)''
      else None)"

definition status_generator :: EnumGenerator where
  "status_generator =
     \<lparr>enumValues = (\<lambda>d. status_catalog),
      getCommentBlock = status_comments,
      importsType = (\<lambda>source d. ''Status''),
      typeComment = (\<lambda>d. Some ''Status of a task.''),
      builtLeadingBlock = [''@generated from protobuf enum Status'']\<rparr>"

definition anonymous_descriptor :: EnumDescriptorProto where
  "anonymous_descriptor = status_descriptor\<lparr>ed_name := None\<rparr>"

text \<open>A catalog whose one entry has the empty name and a number that no member declares.\<close>

definition nameless_generator :: EnumGenerator where
  "nameless_generator =
     status_generator\<lparr>enumValues := (\<lambda>d. [\<lparr>ev_name = [], ev_number = 0\<rparr>])\<rparr>"

definition empty_file :: TypescriptFile where
  "empty_file = \<lparr>nodes = [], statements = [], commentCalls = []\<rparr>"

lemmas string_eval =
  charCode_def is_az_def is_whitespace_def is_word_def toLowerCase_char_def toLowerCase_def
  toUpperCase_char_def toUpperCase_def replace_underscores_def formatEnumName_def
  directive_here_def char_of_def bit_Suc_0_iff

lemmas status_eval =
  status_descriptor_def status_catalog_def status_comments_def status_generator_def
  anonymous_descriptor_def nameless_generator_def empty_file_def


section \<open>The scan of the capitalizing replacement\<close>

lemma is_az_not_boundary: "is_az c \<Longrightarrow> \<not> is_whitespace c \<and> c \<noteq> CHR ''_''"
  by (auto simp add: is_az_def is_whitespace_def charCode_def)

lemma toUpperCase_char_boundary:
  "is_whitespace c \<or> c = CHR ''_'' \<Longrightarrow> toUpperCase_char c = c"
  using is_az_not_boundary [of c] by (auto simp add: toUpperCase_char_def)

lemma capitalize_from_not_az:
  "\<not> is_az c \<Longrightarrow> capitalize_from b (c # cs) = capitalize_from False (c # cs)"
  by simp

lemma capitalize_from_flag:
  "cs = [] \<or> \<not> is_az (hd cs) \<Longrightarrow> capitalize_from b cs = capitalize_from False cs"
  by (cases cs) simp_all

lemma replace_capitalize_scan: "replace_capitalize b s = capitalize_from b s"
proof (induction b s rule: replace_capitalize.induct)
  case (1 at_start)
  show ?case by simp
next
  case (2 at_start c)
  show ?case by (simp add: toUpperCase_def)
next
  case (3 at_start c d ds)
  show ?case
  proof (cases "at_start \<and> is_az c")
    case True
    with 3 show ?thesis
      using is_az_not_boundary [of c] by (simp add: toUpperCase_def)
  next
    case False
    show ?thesis
    proof (cases "(is_whitespace c \<or> c = CHR ''_'') \<and> is_az d")
      case True
      with False 3 show ?thesis
        using toUpperCase_char_boundary [of c] is_az_not_boundary [of d] is_az_not_boundary [of c]
        by (auto simp add: toUpperCase_def)
    next
      case neither: False
      with False 3 have "replace_capitalize at_start (c # d # ds) = c # capitalize_from False (d # ds)"
        by auto
      moreover have "capitalize_from (is_whitespace c \<or> c = CHR ''_'') (d # ds) =
          capitalize_from False (d # ds)"
        using neither by (cases "is_az d") auto
      ultimately show ?thesis
        using False by auto
    qed
  qed
qed

lemma capitalize_from_positions:
  "capitalize_from b s =
     map (\<lambda>i. if is_az (s ! i) \<and> (if i = 0 then b else is_whitespace (s ! (i - 1)) \<or> s ! (i - 1) = CHR ''_'')
              then toUpperCase_char (s ! i) else s ! i)
       [0..<length s]"
  (is "_ = map (?F b s) _")
proof (induction s arbitrary: b)
  case Nil
  show ?case by simp
next
  case (Cons c cs)
  have "[0..<Suc (length cs)] = 0 # [Suc 0..<Suc (length cs)]"
    by (rule upt_conv_Cons) simp
  moreover have "length (c # cs) = Suc (length cs)"
    by simp
  ultimately have idx: "[0..<length (c # cs)] = 0 # map Suc [0..<length cs]"
    by (simp only: map_Suc_upt)
  have tl: "map (?F (is_whitespace c \<or> c = CHR ''_'') cs) [0..<length cs] =
            map (\<lambda>i. ?F b (c # cs) (Suc i)) [0..<length cs]"
    by (rule map_cong) (auto simp add: nth_Cons')
  have "capitalize_from b (c # cs) =
          ?F b (c # cs) 0 # capitalize_from (is_whitespace c \<or> c = CHR ''_'') cs"
    by simp
  also have "\<dots> = ?F b (c # cs) 0 # map (\<lambda>i. ?F b (c # cs) (Suc i)) [0..<length cs]"
    by (simp only: Cons.IH tl)
  also have "\<dots> = map (?F b (c # cs)) (0 # map Suc [0..<length cs])"
    by (simp only: list.map map_map comp_def)
  finally show ?case
    by (simp only: idx)
qed

lemma replace_capitalize_positions:
  "replace_capitalize True s = capitalize_after (\<lambda>c. is_whitespace c \<or> c = CHR ''_'') s"
  unfolding replace_capitalize_scan capitalize_from_positions capitalize_after_def
  by (rule map_cong) auto

lemma formatEnumName_empty: "formatEnumName name = [] \<longleftrightarrow> name = []"
  by (simp add: formatEnumName_def replace_underscores_def replace_capitalize_positions
      capitalize_after_def toLowerCase_def)


section \<open>The search for the directive\<close>

lemma directive_here_Nil: "directive_here [] = None"
  by (simp add: directive_here_def)

lemma directive_here_marker:
  "directive_here (''@Translate: '' @ q) =
     (if takeWhile is_word q = [] then None else Some (takeWhile is_word q))"
  by (simp add: directive_here_def)

lemma directive_here_SomeD:
  assumes "directive_here s = Some tok"
  shows "s = ''@Translate: '' @ tok @ dropWhile is_word (drop 12 s)
         \<and> tok = takeWhile is_word (drop 12 s) \<and> tok \<noteq> []"
proof -
  from assms have m: "take 12 s = ''@Translate: ''"
    and t: "tok = takeWhile is_word (drop 12 s)" and n: "tok \<noteq> []"
    by (auto simp add: directive_here_def Let_def split: if_splits)
  have "s = take 12 s @ drop 12 s"
    by simp
  also have "drop 12 s = tok @ dropWhile is_word (drop 12 s)"
    unfolding t by simp
  finally show ?thesis
    using m t n by simp
qed

lemma directive_occurs_iff: "directive_occurs c k \<longleftrightarrow> directive_here (drop k c) \<noteq> None"
proof
  assume "directive_occurs c k"
  then obtain p q where c: "c = p @ ''@Translate: '' @ q" and k: "length p = k"
    and q: "q \<noteq> []" "is_word (hd q)"
    unfolding directive_occurs_def by blast
  from c k have "drop k c = ''@Translate: '' @ q"
    by simp
  moreover from q have "takeWhile is_word q \<noteq> []"
    by (cases q) simp_all
  ultimately show "directive_here (drop k c) \<noteq> None"
    by (simp only: directive_here_marker) simp
next
  assume "directive_here (drop k c) \<noteq> None"
  then obtain tok where tok: "directive_here (drop k c) = Some tok"
    by blast
  let ?q = "drop 12 (drop k c)"
  from directive_here_SomeD [OF tok]
  have d: "drop k c = ''@Translate: '' @ tok @ dropWhile is_word ?q"
    and t: "tok = takeWhile is_word ?q" and n: "tok \<noteq> []"
    by blast+
  from d have "drop k c \<noteq> []"
    by auto
  then have len: "length (take k c) = k"
    by simp
  from d have c: "c = take k c @ ''@Translate: '' @ (tok @ dropWhile is_word ?q)"
    by (metis append_take_drop_id)
  from n t have "is_word (hd tok)"
    by (metis hd_in_set set_takeWhileD)
  with n have "tok @ dropWhile is_word ?q \<noteq> [] \<and> is_word (hd (tok @ dropWhile is_word ?q))"
    by simp
  with c len show "directive_occurs c k"
    unfolding directive_occurs_def by blast
qed

lemma match_Translate_None_iff:
  "match_Translate c = None \<longleftrightarrow> (\<forall>k. directive_here (drop k c) = None)"
proof (induction c)
  case Nil
  show ?case by (simp add: directive_here_Nil)
next
  case (Cons x xs)
  have "(\<forall>k. directive_here (drop k (x # xs)) = None) \<longleftrightarrow>
        directive_here (x # xs) = None \<and> (\<forall>k. directive_here (drop k xs) = None)"
    (is "?L \<longleftrightarrow> ?R")
  proof
    assume l: ?L
    from l [rule_format, of 0] l show ?R
      by (auto dest: spec [of _ "Suc _"])
  next
    assume ?R
    then show ?L
      by (auto simp add: drop_Cons split: nat.split)
  qed
  with Cons show ?case
    by (simp split: option.split)
qed

lemma match_Translate_first:
  assumes "directive_here (drop k c) = Some tok"
    and "\<forall>j<k. directive_here (drop j c) = None"
  shows "match_Translate c = Some tok"
  using assms
proof (induction c arbitrary: k)
  case Nil
  then show ?case by (simp add: directive_here_Nil)
next
  case (Cons x xs)
  show ?case
  proof (cases k)
    case 0
    with Cons.prems show ?thesis by simp
  next
    case (Suc k')
    with Cons.prems have here: "directive_here (x # xs) = None"
      by (auto dest: spec [of _ 0])
    from Suc Cons.prems have "directive_here (drop k' xs) = Some tok"
      by simp
    moreover have "\<forall>j<k'. directive_here (drop j xs) = None"
    proof (intro allI impI)
      fix j
      assume "j < k'"
      with Suc have "Suc j < k" by simp
      with Cons.prems(2) have "directive_here (drop (Suc j) (x # xs)) = None" by blast
      then show "directive_here (drop j xs) = None" by simp
    qed
    ultimately have "match_Translate xs = Some tok"
      by (rule Cons.IH)
    with here show ?thesis by simp
  qed
qed

lemma match_Translate_SomeD:
  assumes "match_Translate c = Some tok"
  shows "\<exists>k. directive_here (drop k c) = Some tok \<and> (\<forall>j<k. directive_here (drop j c) = None)"
  using assms
proof (induction c)
  case Nil
  then show ?case by simp
next
  case (Cons x xs)
  show ?case
  proof (cases "directive_here (x # xs)")
    case (Some t)
    with Cons.prems have "directive_here (drop 0 (x # xs)) = Some tok"
      by simp
    then show ?thesis by blast
  next
    case None
    with Cons.prems have "match_Translate xs = Some tok"
      by simp
    then obtain k where k: "directive_here (drop k xs) = Some tok"
      and first: "\<forall>j<k. directive_here (drop j xs) = None"
      using Cons.IH by blast
    have "\<forall>j<Suc k. directive_here (drop j (x # xs)) = None"
      using None first by (auto simp add: drop_Cons split: nat.split)
    with k show ?thesis
      by (intro exI [of _ "Suc k"]) simp
  qed
qed

lemma first_directive_match: "first_directive c tok \<Longrightarrow> match_Translate c = Some tok"
proof -
  assume "first_directive c tok"
  then obtain pre post where c: "c = pre @ ''@Translate: '' @ tok @ post"
    and n: "tok \<noteq> []" and w: "\<forall>ch \<in> set tok. is_word ch"
    and e: "post = [] \<or> \<not> is_word (hd post)"
    and f: "\<forall>k<length pre. \<not> directive_occurs c k"
    unfolding first_directive_def by blast
  from e have "takeWhile is_word post = []"
    by (cases post) auto
  with w have "takeWhile is_word (tok @ post) = tok"
    by (simp add: takeWhile_append2)
  with n have "directive_here (''@Translate: '' @ tok @ post) = Some tok"
    by (simp only: directive_here_marker) simp
  with c have "directive_here (drop (length pre) c) = Some tok"
    by simp
  moreover from f have "\<forall>j<length pre. directive_here (drop j c) = None"
    by (simp add: directive_occurs_iff)
  ultimately show ?thesis
    by (rule match_Translate_first)
qed

lemma match_first_directive: "match_Translate c = Some tok \<Longrightarrow> first_directive c tok"
proof -
  assume "match_Translate c = Some tok"
  then obtain k where k: "directive_here (drop k c) = Some tok"
    and first: "\<forall>j<k. directive_here (drop j c) = None"
    using match_Translate_SomeD by blast
  let ?q = "drop 12 (drop k c)"
  from directive_here_SomeD [OF k]
  have d: "drop k c = ''@Translate: '' @ tok @ dropWhile is_word ?q"
    and t: "tok = takeWhile is_word ?q" and n: "tok \<noteq> []"
    by blast+
  from d have "drop k c \<noteq> []"
    by auto
  then have len: "length (take k c) = k"
    by simp
  from d have c: "c = take k c @ ''@Translate: '' @ tok @ dropWhile is_word ?q"
    by (metis append_take_drop_id)
  have w: "\<forall>ch \<in> set tok. is_word ch"
    unfolding t by (auto dest: set_takeWhileD)
  have e: "dropWhile is_word ?q = [] \<or> \<not> is_word (hd (dropWhile is_word ?q))"
    by (metis hd_dropWhile)
  from first len have f: "\<forall>j<length (take k c). \<not> directive_occurs c j"
    by (simp add: directive_occurs_iff)
  from c n w e f show ?thesis
    unfolding first_directive_def by blast
qed

lemma no_directive_match: "no_directive c \<longleftrightarrow> match_Translate c = None"
  by (simp add: no_directive_def directive_occurs_iff match_Translate_None_iff)


section \<open>What the two generators emit\<close>

lemma foldl_generateEnum_step:
  "foldl (generateEnum_step this d) builder evs = builder @ map (emitted_member this d) evs"
  by (induction evs arbitrary: builder)
     (simp_all add: generateEnum_step_def builder_add_def emitted_member_def emitted_comment_def)

lemma foldl_generateTranslationTable_step:
  "foldl (generateTranslationTable_step this d) entries evs =
     entries @
       map (\<lambda>ev. (PropertyAccess
                    (Identifier (case ed_name d of Some n \<Rightarrow> n | None \<Rightarrow> ''SpectralBot''))
                    (ev_name ev),
                  StringLiteral (translatedName this d ev))) evs"
  by (induction evs arbitrary: entries)
     (simp_all add: generateTranslationTable_step_def)

lemma generateEnum_result:
  "generateEnum this source d =
     (length (nodes source),
      source\<lparr>nodes := nodes source @
                 [\<lparr>kind = EnumDeclaration [ExportKeyword] (importsType this source d)
                            (map (emitted_member this d) (enumValues this d)),
                   leadingBlock = builtLeadingBlock this @
                     (case typeComment this d of None \<Rightarrow> [] | Some text \<Rightarrow> [text])\<rparr>],
             statements := statements source @ [length (nodes source)],
             commentCalls := commentCalls source @
               [(length (nodes source), ''appendToLeadingBlock'',
                 statements source @ [length (nodes source)])]\<rparr>)"
  by (simp add: generateEnum_def foldl_generateEnum_step builder_new_def builder_build_def
      alloc_def addStatement_def addCommentsForDescriptor_def node_at_def)

lemma generateTranslationTable_result:
  "generateTranslationTable this source d =
     source\<lparr>nodes := nodes source @
                [\<lparr>kind = VariableStatement [ExportKeyword]
                     [VariableDeclaration
                        (Identifier (template_string (ed_name d) @ ''Translation'')) None
                        (Some (ArrayLiteral
                           (map (\<lambda>ev. ObjectLiteral
                                  [(''id'', PropertyAccess
                                      (Identifier (case ed_name d of Some n \<Rightarrow> n
                                                   | None \<Rightarrow> ''SpectralBot''))
                                      (ev_name ev)),
                                   (''name'', StringLiteral (translatedName this d ev))])
                              (enumValues this d))
                           True))]
                     Const,
                  leadingBlock = []\<rparr>],
            statements := statements source @ [length (nodes source)]\<rparr>"
  by (simp add: generateTranslationTable_def foldl_generateTranslationTable_step alloc_def
      addStatement_def comp_def)

lemma declaration_members_generateEnum:
  "declaration_members (generateEnum this source d) =
     map (emitted_member this d) (enumValues this d)"
  by (simp add: generateEnum_result declaration_members_def node_at_def)

lemma table_elements_generateTranslationTable:
  "table_elements (generateTranslationTable this source d) =
     map (\<lambda>ev. ObjectLiteral
            [(''id'', PropertyAccess
                (Identifier (case ed_name d of Some n \<Rightarrow> n | None \<Rightarrow> ''SpectralBot''))
                (ev_name ev)),
             (''name'', StringLiteral (translatedName this d ev))])
       (enumValues this d)"
  by (simp add: generateTranslationTable_result table_elements_def table_declaration_def
      last_statement_def node_at_def)

lemma table_variable_generateTranslationTable:
  "table_variable (generateTranslationTable this source d) =
     Some (Identifier (template_string (ed_name d) @ ''Translation''))"
  by (simp add: generateTranslationTable_result table_variable_def table_declaration_def
      last_statement_def node_at_def)

lemma translatedName_cases:
  "translatedName this d ev =
     (case matched_comment this d ev of
        None \<Rightarrow> formatEnumName (ev_name ev)
      | Some c \<Rightarrow>
          (case match_Translate c of
             Some tok \<Rightarrow> tok
           | None \<Rightarrow> formatEnumName (ev_name ev)))"
  by (auto simp add: translatedName_def matched_comment_def Let_def split: option.split)

lemma element_label_generateTranslationTable:
  "i < length (enumValues this d) \<Longrightarrow>
   element_label (table_elements (generateTranslationTable this source d) ! i) =
     Some (translatedName this d (enumValues this d ! i))"
  by (simp add: table_elements_generateTranslationTable element_label_def)


section \<open>The claims\<close>

text \<open>Claim C1. Whatever the descriptor and the catalog (empty or not), \<open>generateEnum\<close> emits
  one declaration member for each catalog entry and \<open>generateTranslationTable\<close> one
  translation entry for each catalog entry: both outputs are as long as the catalog and in
  its order, the members carry the names and numbers of the entries, and every translation
  entry refers to the member of the entry's name.\<close>

theorem catalog_members_and_entries:
  "map (\<lambda>m. (member_name m, member_number m))
       (declaration_members (generateEnum this source d)) =
     map (\<lambda>ev. (ev_name ev, ev_number ev)) (enumValues this d)
   \<and> map element_member (table_elements (generateTranslationTable this source d)) =
     map (\<lambda>ev. Some (ev_name ev)) (enumValues this d)
   \<and> length (declaration_members (generateEnum this source d)) = length (enumValues this d)
   \<and> length (table_elements (generateTranslationTable this source d)) =
     length (enumValues this d)"
  by (simp add: declaration_members_generateEnum table_elements_generateTranslationTable
      emitted_member_def element_member_def element_id_def comp_def)

text \<open>Claim C2, as stated: the letter behind a tab is made upper case by \<open>formatEnumName\<close>,
  and is left as it is when only the string start, the space and the underscore begin a
  run.\<close>

theorem formatEnumName_after_tab:
  "formatEnumName [CHR ''a'', CHR 0x09, CHR ''b''] = [CHR ''A'', CHR 0x09, CHR ''B'']
   \<and> humanize_spec [CHR ''a'', CHR 0x09, CHR ''b''] = [CHR ''A'', CHR 0x09, CHR ''b'']"
  by (simp add: string_eval humanize_spec_def capitalize_after_def)

text \<open>Claim C2, amended. \<open>formatEnumName\<close> is a function of its argument alone that lower-cases
  the whole name, makes upper case every letter a to z that stands at the start of the string
  or behind a white space character (a space, but also a tab, a line break or a no-break
  space) or an underscore, and then replaces every underscore by a space; so
  \<open>READY_TO_START\<close> gives \<open>Ready To Start\<close>, the empty name the empty label, and \<open>A\<close> gives
  \<open>A\<close>.\<close>

theorem formatEnumName_humanize:
  "formatEnumName name = humanize name
   \<and> formatEnumName ''READY_TO_START'' = ''Ready To Start''
   \<and> formatEnumName '''' = ''''
   \<and> formatEnumName ''A'' = ''A''"
proof -
  have "formatEnumName name = humanize name"
    by (simp add: formatEnumName_def humanize_def replace_underscores_def
        replace_capitalize_positions)
  moreover have "formatEnumName ''READY_TO_START'' = ''Ready To Start''"
    by (simp add: string_eval)
  moreover have "formatEnumName '''' = ''''"
    by (simp add: string_eval)
  moreover have "formatEnumName ''A'' = ''A''"
    by (simp add: string_eval)
  ultimately show ?thesis by simp
qed

text \<open>Claim C3, as stated. The comment of \<open>READY_TO_START\<close> contains \<open>@Translate: Foo\<close>, and
  the label of that entry is not \<open>Foo\<close> but the token of the directive that stands before
  it. And a catalog entry with the empty name and no comment has the humanized name as its
  label, which is the empty string.\<close>

theorem later_directive_and_empty_name:
  "matched_comment status_generator status_descriptor
       (enumValues status_generator status_descriptor ! 2) =
     Some (''@translate: no, @Translate: GoTime! '' @ ''@Translate: Foo'' @ [])
   \<and> element_label
        (table_elements (generateTranslationTable status_generator empty_file status_descriptor) ! 2) =
      Some ''GoTime''
   \<and> element_label
        (table_elements (generateTranslationTable status_generator empty_file status_descriptor) ! 2) \<noteq>
      Some ''Foo''
   \<and> matched_comment nameless_generator status_descriptor
        (enumValues nameless_generator status_descriptor ! 0) = None
   \<and> element_label
        (table_elements (generateTranslationTable nameless_generator empty_file status_descriptor) ! 0) =
      Some []"
  by (simp add: element_label_generateTranslationTable translatedName_cases matched_comment_def
      find_value_def status_eval string_eval)

text \<open>Claim C3, amended. When the first directive of the matched comment of a catalog entry
  has the token \<open>tok\<close>, the label of the entry is \<open>tok\<close>, whatever the humanized name is.
  When the matched comment holds no directive (as \<open>@Translate:\<close> with no word character
  behind it), and when there is no comment, the label is the humanized name of the member,
  which is the empty string only when the name of the member is empty.\<close>

theorem directive_label_or_default:
  assumes "i < length (enumValues this d)"
  shows "(\<forall>c tok. matched_comment this d (enumValues this d ! i) = Some c \<and> first_directive c tok
            \<longrightarrow> element_label (table_elements (generateTranslationTable this source d) ! i) =
                Some tok)
       \<and> (\<forall>c. matched_comment this d (enumValues this d ! i) = Some c \<and> no_directive c
            \<longrightarrow> element_label (table_elements (generateTranslationTable this source d) ! i) =
                Some (formatEnumName (ev_name (enumValues this d ! i))))
       \<and> (matched_comment this d (enumValues this d ! i) = None
            \<longrightarrow> element_label (table_elements (generateTranslationTable this source d) ! i) =
                Some (formatEnumName (ev_name (enumValues this d ! i))))
       \<and> (formatEnumName (ev_name (enumValues this d ! i)) = []
            \<longleftrightarrow> ev_name (enumValues this d ! i) = [])"
  using assms
  by (auto simp add: element_label_generateTranslationTable translatedName_cases
      first_directive_match no_directive_match formatEnumName_empty)

theorem directive_label_or_default_witness:
  "(2::nat) < length (enumValues status_generator status_descriptor)
   \<and> first_directive ''@translate: no, @Translate: GoTime! @Translate: Foo'' ''GoTime''
   \<and> element_label
        (table_elements (generateTranslationTable status_generator empty_file status_descriptor) ! 2) =
      Some ''GoTime''
   \<and> no_directive ''@Translate: (none)''
   \<and> element_label
        (table_elements (generateTranslationTable status_generator empty_file status_descriptor) ! 3) =
      Some ''Done''
   \<and> matched_comment status_generator status_descriptor
        (enumValues status_generator status_descriptor ! 4) = None
   \<and> element_label
        (table_elements (generateTranslationTable status_generator empty_file status_descriptor) ! 4) =
      Some ''On Hold''"
proof -
  have first: "first_directive ''@translate: no, @Translate: GoTime! @Translate: Foo'' ''GoTime''"
    by (rule match_first_directive) (simp add: string_eval)
  have none: "no_directive ''@Translate: (none)''"
    unfolding no_directive_match by (simp add: string_eval)
  have c2: "matched_comment status_generator status_descriptor
      (enumValues status_generator status_descriptor ! 2) =
      Some ''@translate: no, @Translate: GoTime! @Translate: Foo''"
    by (simp add: matched_comment_def find_value_def status_eval)
  have c3: "matched_comment status_generator status_descriptor
      (enumValues status_generator status_descriptor ! 3) = Some ''@Translate: (none)''"
    by (simp add: matched_comment_def find_value_def status_eval)
  have c4: "matched_comment status_generator status_descriptor
      (enumValues status_generator status_descriptor ! 4) = None"
    by (simp add: matched_comment_def find_value_def status_eval)
  have n3: "formatEnumName (ev_name (enumValues status_generator status_descriptor ! 3)) = ''Done''"
    by (simp add: status_eval string_eval)
  have n4: "formatEnumName (ev_name (enumValues status_generator status_descriptor ! 4)) = ''On Hold''"
    by (simp add: status_eval string_eval)
  have len: "(2::nat) < length (enumValues status_generator status_descriptor)"
    "(3::nat) < length (enumValues status_generator status_descriptor)"
    "(4::nat) < length (enumValues status_generator status_descriptor)"
    by (simp_all add: status_eval)
  show ?thesis
    using directive_label_or_default [OF len(1), of empty_file]
      directive_label_or_default [OF len(2), of empty_file]
      directive_label_or_default [OF len(3), of empty_file]
      first none c2 c3 c4 n3 n4 len(1)
    by simp
qed

text \<open>Claim C4. For a catalog entry whose number no declared member of the descriptor has,
  the member that \<open>generateEnum\<close> emits carries the fixed notice, the same text for every
  such entry: a generated synthetic value, there because protobuf-ts requires all enums to
  have a 0 value.\<close>

theorem synthetic_value_comment:
  assumes "i < length (enumValues this d)"
    and "\<forall>v \<in> set (ed_value d). evd_number v \<noteq> ev_number (enumValues this d ! i)"
  shows "member_comment (declaration_members (generateEnum this source d) ! i) =
           Some ''@generated synthetic value - protobuf-ts requires all enums to have a 0 value''"
proof -
  have "find_value d (enumValues this d ! i) = None"
    using assms(2) by (simp add: find_value_def find_None_iff)
  then show ?thesis
    using assms(1)
    by (simp add: declaration_members_generateEnum emitted_member_def emitted_comment_def)
qed

theorem synthetic_value_comment_witness:
  "0 < length (enumValues status_generator status_descriptor)
   \<and> member_comment
        (declaration_members (generateEnum status_generator empty_file status_descriptor) ! 0) =
      Some ''@generated synthetic value - protobuf-ts requires all enums to have a 0 value''"
  using synthetic_value_comment [of 0 status_generator status_descriptor empty_file]
  by (simp add: status_eval)

text \<open>Claim C5. \<open>generateEnum\<close> finds the declared member of a catalog entry by equality
  of the numbers and takes the first one in declaration order: when the member at position
  \<open>j\<close> has the entry's number and none before it has, the emitted member's comment is what
  \<open>getCommentBlock\<close> gives for that member, absent when that is absent.\<close>

theorem first_matching_member_comment:
  assumes "i < length (enumValues this d)"
    and "j < length (ed_value d)"
    and "evd_number (ed_value d ! j) = ev_number (enumValues this d ! i)"
    and "\<forall>k<j. evd_number (ed_value d ! k) \<noteq> ev_number (enumValues this d ! i)"
  shows "find_value d (enumValues this d ! i) = Some (ed_value d ! j)
         \<and> member_comment (declaration_members (generateEnum this source d) ! i) =
           getCommentBlock this (ed_value d ! j) True"
proof -
  have "find_value d (enumValues this d ! i) = Some (ed_value d ! j)"
    unfolding find_value_def find_Some_iff using assms(2-4) by blast
  then show ?thesis
    using assms(1)
    by (simp add: declaration_members_generateEnum emitted_member_def emitted_comment_def)
qed

theorem first_matching_member_comment_witness:
  "(1::nat) < length (enumValues status_generator status_descriptor)
   \<and> (0::nat) < length (ed_value status_descriptor)
   \<and> evd_number (ed_value status_descriptor ! 0) =
       ev_number (enumValues status_generator status_descriptor ! 1)
   \<and> evd_number (ed_value status_descriptor ! 1) =
       ev_number (enumValues status_generator status_descriptor ! 1)
   \<and> member_comment
        (declaration_members (generateEnum status_generator empty_file status_descriptor) ! 1) =
      Some ''The task runs.''
   \<and> member_comment
        (declaration_members (generateEnum status_generator empty_file status_descriptor) ! 4) =
      None"
  using first_matching_member_comment [of 1 status_generator status_descriptor 0 empty_file]
    first_matching_member_comment [of 4 status_generator status_descriptor 4 empty_file]
  by (simp add: status_eval declaration_members_generateEnum emitted_member_def
      emitted_comment_def find_value_def)

text \<open>Claim C6. For a descriptor without a name \<open>generateTranslationTable\<close> returns, but
  the variable of the table is not named with the fallback literal: the example enumeration
  without its name gives the variable \<open>undefinedTranslation\<close>, whose entries refer to
  \<open>SpectralBot\<close>.\<close>

theorem absent_name_variable_is_undefinedTranslation:
  "table_variable (generateTranslationTable status_generator empty_file anonymous_descriptor) =
     Some (Identifier ''undefinedTranslation'')
   \<and> map element_id
       (table_elements (generateTranslationTable status_generator empty_file anonymous_descriptor)) =
     [Some (PropertyAccess (Identifier ''SpectralBot'') ''UNSPECIFIED''),
      Some (PropertyAccess (Identifier ''SpectralBot'') ''ACTIVE''),
      Some (PropertyAccess (Identifier ''SpectralBot'') ''READY_TO_START''),
      Some (PropertyAccess (Identifier ''SpectralBot'') ''DONE''),
      Some (PropertyAccess (Identifier ''SpectralBot'') ''ON_HOLD'')]"
  by (simp add: table_elements_generateTranslationTable table_variable_generateTranslationTable
      element_id_def template_string_def status_eval)

text \<open>Claim C7. For an enumeration named \<open>n\<close>, \<open>generateTranslationTable\<close> allocates one
  statement and appends it to the file, and changes nothing else: an exported variable
  statement, declared \<open>const\<close>, of the one variable \<open>n\<close> followed by \<open>Translation\<close>, whose
  initializer is an array with one object \<open>{id, name}\<close> for each catalog entry, \<open>id\<close> the
  property access of the member's name on the identifier \<open>n\<close> and \<open>name\<close> the label as a
  string literal.\<close>

theorem translation_table_statement:
  assumes "ed_name d = Some n"
  shows "generateTranslationTable this source d =
     source\<lparr>nodes := nodes source @
                [\<lparr>kind = VariableStatement [ExportKeyword]
                     [VariableDeclaration (Identifier (n @ ''Translation'')) None
                        (Some (ArrayLiteral
                           (map (\<lambda>ev. ObjectLiteral
                                  [(''id'', PropertyAccess (Identifier n) (ev_name ev)),
                                   (''name'', StringLiteral (translatedName this d ev))])
                              (enumValues this d))
                           True))]
                     Const,
                  leadingBlock = []\<rparr>],
            statements := statements source @ [length (nodes source)]\<rparr>"
  using assms by (simp add: generateTranslationTable_result template_string_def)

theorem translation_table_statement_witness:
  "ed_name status_descriptor = Some ''Status''
   \<and> generateTranslationTable status_generator empty_file status_descriptor =
     \<lparr>nodes =
        [\<lparr>kind = VariableStatement [ExportKeyword]
             [VariableDeclaration (Identifier ''StatusTranslation'') None
                (Some (ArrayLiteral
                   [ObjectLiteral [(''id'', PropertyAccess (Identifier ''Status'') ''UNSPECIFIED''),
                                   (''name'', StringLiteral ''Unspecified'')],
                    ObjectLiteral [(''id'', PropertyAccess (Identifier ''Status'') ''ACTIVE''),
                                   (''name'', StringLiteral ''Active'')],
                    ObjectLiteral [(''id'', PropertyAccess (Identifier ''Status'') ''READY_TO_START''),
                                   (''name'', StringLiteral ''GoTime'')],
                    ObjectLiteral [(''id'', PropertyAccess (Identifier ''Status'') ''DONE''),
                                   (''name'', StringLiteral ''Done'')],
                    ObjectLiteral [(''id'', PropertyAccess (Identifier ''Status'') ''ON_HOLD''),
                                   (''name'', StringLiteral ''On Hold'')]]
                   True))]
             Const,
          leadingBlock = []\<rparr>],
      statements = [0],
      commentCalls = []\<rparr>"
  using translation_table_statement [of status_descriptor "''Status''" status_generator empty_file]
  by (simp add: status_eval string_eval translatedName_def find_value_def)

text \<open>Claim C8. The label of an entry with a comment comes from a directive only when the
  marker \<open>@Translate: \<close> stands in the comment character for character (so in this case
  of the letters) with a word character behind it. Then the directive used is the first one:
  the label is the text \<open>tok\<close> that stands in the comment behind the leftmost such marker,
  a run of word characters that ends where the word characters end, taken as it stands.
  Otherwise the label is the humanized name.\<close>

theorem directive_matching:
  assumes "i < length (enumValues this d)"
    and "matched_comment this d (enumValues this d ! i) = Some c"
  shows "(if no_directive c
          then element_label (table_elements (generateTranslationTable this source d) ! i) =
                 Some (formatEnumName (ev_name (enumValues this d ! i)))
          else \<exists>pre tok post.
                 c = pre @ ''@Translate: '' @ tok @ post
                 \<and> tok \<noteq> [] \<and> (\<forall>ch \<in> set tok. is_word ch)
                 \<and> (post = [] \<or> \<not> is_word (hd post))
                 \<and> (\<forall>k<length pre. \<not> directive_occurs c k)
                 \<and> element_label (table_elements (generateTranslationTable this source d) ! i) =
                     Some tok)"
proof (cases "match_Translate c")
  case None
  with assms show ?thesis
    by (simp add: element_label_generateTranslationTable translatedName_cases no_directive_match)
next
  case (Some tok)
  then have "first_directive c tok"
    by (rule match_first_directive)
  then obtain pre post where "c = pre @ ''@Translate: '' @ tok @ post"
    "tok \<noteq> []" "\<forall>ch \<in> set tok. is_word ch" "post = [] \<or> \<not> is_word (hd post)"
    "\<forall>k<length pre. \<not> directive_occurs c k"
    unfolding first_directive_def by blast
  moreover from assms Some
  have "element_label (table_elements (generateTranslationTable this source d) ! i) = Some tok"
    by (simp add: element_label_generateTranslationTable translatedName_cases)
  ultimately have "\<exists>pre tok post.
                 c = pre @ ''@Translate: '' @ tok @ post
                 \<and> tok \<noteq> [] \<and> (\<forall>ch \<in> set tok. is_word ch)
                 \<and> (post = [] \<or> \<not> is_word (hd post))
                 \<and> (\<forall>k<length pre. \<not> directive_occurs c k)
                 \<and> element_label (table_elements (generateTranslationTable this source d) ! i) =
                     Some tok"
    by blast
  with Some show ?thesis
    by (simp add: no_directive_match)
qed

theorem directive_matching_witness:
  "(2::nat) < length (enumValues status_generator status_descriptor)
   \<and> matched_comment status_generator status_descriptor
        (enumValues status_generator status_descriptor ! 2) =
      Some ''@translate: no, @Translate: GoTime! @Translate: Foo''
   \<and> \<not> no_directive ''@translate: no, @Translate: GoTime! @Translate: Foo''
   \<and> (\<exists>pre post. ''@translate: no, @Translate: GoTime! @Translate: Foo'' =
                     pre @ ''@Translate: '' @ ''GoTime'' @ post)
   \<and> element_label
        (table_elements (generateTranslationTable status_generator empty_file status_descriptor) ! 2) =
      Some ''GoTime''"
proof -
  have len: "(2::nat) < length (enumValues status_generator status_descriptor)"
    by (simp add: status_eval)
  have c2: "matched_comment status_generator status_descriptor
      (enumValues status_generator status_descriptor ! 2) =
      Some ''@translate: no, @Translate: GoTime! @Translate: Foo''"
    by (simp add: matched_comment_def find_value_def status_eval)
  have some: "\<not> no_directive ''@translate: no, @Translate: GoTime! @Translate: Foo''"
    unfolding no_directive_match by (simp add: string_eval)
  have label: "element_label
        (table_elements (generateTranslationTable status_generator empty_file status_descriptor) ! 2) =
      Some ''GoTime''"
    using len c2
    by (simp add: element_label_generateTranslationTable translatedName_cases string_eval)
  from directive_matching [OF len c2, of empty_file] some label
  have "\<exists>pre post. ''@translate: no, @Translate: GoTime! @Translate: Foo'' =
                     pre @ ''@Translate: '' @ ''GoTime'' @ post"
    by auto
  with len c2 some label show ?thesis
    by simp
qed

text \<open>Claim C9. \<open>generateEnum\<close> allocates the exported declaration that the builder made
  and appends its reference to the file as a new last statement. The documentation of the
  type is attached only afterwards: the one call of \<open>addCommentsForDescriptor\<close> that
  \<open>generateEnum\<close> adds to the history is made on that node, with the mode
  \<open>'appendToLeadingBlock'\<close>, on a file that already ends with the statement. The leading block
  of the node then is the block the declaration had, whatever it held, with the
  documentation behind it, not the documentation alone. The reference returned is the one
  in the file, and the nodes that were there before are as they were.\<close>

theorem declaration_added_then_commented:
  "(let statement = fst (generateEnum this source d);
        source3 = snd (generateEnum this source d)
    in statement = length (nodes source)
       \<and> node_at source statement = None
       \<and> statements source3 = statements source @ [statement]
       \<and> commentCalls source3 =
           commentCalls source @
             [(statement, ''appendToLeadingBlock'', statements source @ [statement])]
       \<and> node_at source3 statement =
           Some \<lparr>kind = EnumDeclaration [ExportKeyword] (importsType this source d)
                         (map (emitted_member this d) (enumValues this d)),
                 leadingBlock = builtLeadingBlock this @
                   (case typeComment this d of None \<Rightarrow> [] | Some text \<Rightarrow> [text])\<rparr>
       \<and> take (length (nodes source)) (nodes source3) = nodes source)"
  by (simp add: generateEnum_result node_at_def Let_def)

theorem declaration_added_then_commented_witness:
  "fst (generateEnum status_generator empty_file status_descriptor) = 0
   \<and> statements (snd (generateEnum status_generator empty_file status_descriptor)) = [0]
   \<and> commentCalls (snd (generateEnum status_generator empty_file status_descriptor)) =
       [(0, ''appendToLeadingBlock'', [0])]
   \<and> map_option leadingBlock
         (node_at (snd (generateEnum status_generator empty_file status_descriptor)) 0) =
       Some [''@generated from protobuf enum Status'', ''Status of a task.'']"
  using declaration_added_then_commented [of status_generator empty_file status_descriptor]
  by (auto simp add: status_eval Let_def)

text \<open>Claim C10. Every \<open>id\<close> of the translation table is the property access of the
  member's name on the identifier of the descriptor's name, and on the identifier
  \<open>SpectralBot\<close> when the descriptor has no name. The name of the table's variable does not
  get that fallback: it is the interpolation of the name with \<open>Translation\<close> behind it, and an
  absent name is interpolated as \<open>undefined\<close>.\<close>

theorem fallback_only_in_member_references:
  "map element_id (table_elements (generateTranslationTable this source d)) =
     map (\<lambda>ev. Some (PropertyAccess
                       (Identifier (case ed_name d of Some n \<Rightarrow> n | None \<Rightarrow> ''SpectralBot''))
                       (ev_name ev)))
       (enumValues this d)
   \<and> table_variable (generateTranslationTable this source d) =
     Some (Identifier (case ed_name d of
                         Some n \<Rightarrow> n @ ''Translation''
                       | None \<Rightarrow> ''undefinedTranslation''))"
  by (simp add: table_elements_generateTranslationTable table_variable_generateTranslationTable
      element_id_def comp_def template_string_def split: option.split)

end
